theory Spec2Isabelle
  imports Complex_Main
begin

section \<open>Numbers\<close>

text \<open>
  The program computes with JavaScript numbers. They are modelled as the real numbers
  extended by the three special values the program can produce: a division by zero gives
  \<open>Infinity\<close>, \<open>-Infinity\<close> or \<open>NaN\<close>, and \<open>NaN\<close> poisons every later operation.
  Finite arithmetic is exact (no rounding, no overflow) and zero has no sign: this is the
  idealisation under which the program's geometry is stated "within floating tolerance".
\<close>

datatype number = Num real | Infinity | NegInfinity | NaN

instantiation number :: "{uminus, plus, minus, times, inverse, ord}"
begin

fun uminus_number :: "number \<Rightarrow> number" where
  "- Num a = Num (- a)"
| "- Infinity = NegInfinity"
| "- NegInfinity = Infinity"
| "- NaN = NaN"

fun plus_number :: "number \<Rightarrow> number \<Rightarrow> number" where
  "Num a + Num b = Num (a + b)"
| "NaN + _ = NaN"
| "_ + NaN = NaN"
| "Infinity + NegInfinity = NaN"
| "NegInfinity + Infinity = NaN"
| "Infinity + _ = Infinity"
| "_ + Infinity = Infinity"
| "NegInfinity + _ = NegInfinity"
| "_ + NegInfinity = NegInfinity"

fun minus_number :: "number \<Rightarrow> number \<Rightarrow> number" where
  "(a :: number) - b = a + (- b)"

fun times_number :: "number \<Rightarrow> number \<Rightarrow> number" where
  "Num a * Num b = Num (a * b)"
| "NaN * _ = NaN"
| "_ * NaN = NaN"
| "Infinity * Num b = (if b = 0 then NaN else if 0 < b then Infinity else NegInfinity)"
| "NegInfinity * Num b = (if b = 0 then NaN else if 0 < b then NegInfinity else Infinity)"
| "Num a * Infinity = (if a = 0 then NaN else if 0 < a then Infinity else NegInfinity)"
| "Num a * NegInfinity = (if a = 0 then NaN else if 0 < a then NegInfinity else Infinity)"
| "Infinity * Infinity = Infinity"
| "Infinity * NegInfinity = NegInfinity"
| "NegInfinity * Infinity = NegInfinity"
| "NegInfinity * NegInfinity = Infinity"

fun divide_number :: "number \<Rightarrow> number \<Rightarrow> number" where
  "divide_number (Num a) (Num b) =
     (if b = 0 then (if a = 0 then NaN else if 0 < a then Infinity else NegInfinity)
      else Num (a / b))"
| "divide_number NaN _ = NaN"
| "divide_number _ NaN = NaN"
| "divide_number (Num a) Infinity = Num 0"
| "divide_number (Num a) NegInfinity = Num 0"
| "divide_number Infinity (Num b) = (if 0 \<le> b then Infinity else NegInfinity)"
| "divide_number NegInfinity (Num b) = (if 0 \<le> b then NegInfinity else Infinity)"
| "divide_number Infinity _ = NaN"
| "divide_number NegInfinity _ = NaN"

fun inverse_number :: "number \<Rightarrow> number" where
  "inverse_number (Num a) = (if a = 0 then Infinity else Num (1 / a))"
| "inverse_number Infinity = Num 0"
| "inverse_number NegInfinity = Num 0"
| "inverse_number NaN = NaN"

fun less_eq_number :: "number \<Rightarrow> number \<Rightarrow> bool" where
  "Num a \<le> Num b = (a \<le> b)"
| "NaN \<le> _ = False"
| "_ \<le> NaN = False"
| "NegInfinity \<le> _ = True"
| "_ \<le> Infinity = True"
| "Infinity \<le> _ = False"
| "_ \<le> NegInfinity = False"

fun less_number :: "number \<Rightarrow> number \<Rightarrow> bool" where
  "Num a < Num b = (a < b)"
| "NaN < _ = False"
| "_ < NaN = False"
| "Infinity < _ = False"
| "_ < NegInfinity = False"
| "NegInfinity < _ = True"
| "_ < Infinity = True"

instance ..

end

text \<open>\<open>a === b\<close> on numbers: \<open>NaN\<close> equals nothing, not even itself.\<close>

fun strictEq :: "number \<Rightarrow> number \<Rightarrow> bool" where
  "strictEq NaN _ = False"
| "strictEq _ NaN = False"
| "strictEq a b = (a = b)"

text \<open>\<open>Number.isFinite\<close>.\<close>

fun isFinite :: "number \<Rightarrow> bool" where
  "isFinite (Num _) = True"
| "isFinite _ = False"

text \<open>\<open>Math.min\<close> and \<open>Math.max\<close> of two arguments: \<open>NaN\<close> if either argument is.\<close>

fun Math_min :: "number \<Rightarrow> number \<Rightarrow> number" where
  "Math_min (Num a) (Num b) = Num (min a b)"
| "Math_min NaN _ = NaN"
| "Math_min _ NaN = NaN"
| "Math_min NegInfinity _ = NegInfinity"
| "Math_min _ NegInfinity = NegInfinity"
| "Math_min Infinity b = b"
| "Math_min a Infinity = a"

fun Math_max :: "number \<Rightarrow> number \<Rightarrow> number" where
  "Math_max (Num a) (Num b) = Num (max a b)"
| "Math_max NaN _ = NaN"
| "Math_max _ NaN = NaN"
| "Math_max Infinity _ = Infinity"
| "Math_max _ Infinity = Infinity"
| "Math_max NegInfinity b = b"
| "Math_max a NegInfinity = a"

text \<open>\<open>Math.abs\<close>, \<open>Math.sqrt\<close> and \<open>Math.round\<close> (which rounds a half upwards).\<close>

fun Math_abs :: "number \<Rightarrow> number" where
  "Math_abs (Num a) = Num \<bar>a\<bar>"
| "Math_abs Infinity = Infinity"
| "Math_abs NegInfinity = Infinity"
| "Math_abs NaN = NaN"

fun Math_sqrt :: "number \<Rightarrow> number" where
  "Math_sqrt (Num a) = (if a < 0 then NaN else Num (sqrt a))"
| "Math_sqrt Infinity = Infinity"
| "Math_sqrt NegInfinity = NaN"
| "Math_sqrt NaN = NaN"

fun Math_round :: "number \<Rightarrow> number" where
  "Math_round (Num a) = Num (of_int \<lfloor>a + 1 / 2\<rfloor>)"
| "Math_round Infinity = Infinity"
| "Math_round NegInfinity = NegInfinity"
| "Math_round NaN = NaN"

text \<open>\<open>Number.MAX_VALUE\<close>, the largest finite double.\<close>

definition MAX_VALUE :: number where
  "MAX_VALUE = Num (2 ^ 1024 - 2 ^ 971)"

text \<open>
  \<open>a || b\<close> where \<open>a\<close> is an optional number: \<open>undefined\<close>, \<open>0\<close> and \<open>NaN\<close> are
  falsy and give \<open>b\<close>.
\<close>

fun orElse :: "number option \<Rightarrow> number \<Rightarrow> number" where
  "orElse None b = b"
| "orElse (Some NaN) b = b"
| "orElse (Some (Num a)) b = (if a = 0 then b else Num a)"
| "orElse (Some a) b = a"

section \<open>Geometry utilities (\<open>src/hooks/transform-utils.ts\<close>)\<close>

record Dimensions =
  width :: number
  height :: number

text \<open>
  \<open>Bounds\<close> has the fields of \<open>Dimensions\<close> and an origin; the program passes a
  \<open>Bounds\<close> wherever a \<open>Dimensions\<close> is expected, which the record extension allows.
\<close>

record Bounds = Dimensions +
  bounds_x :: number
  bounds_y :: number

record Point =
  point_x :: number
  point_y :: number

record Scale =
  scale_x :: number
  scale_y :: number

record VisibleRect =
  rect_left :: number
  rect_top :: number
  rect_right :: number
  rect_bottom :: number

definition calculateScale :: "'a Dimensions_scheme \<Rightarrow> 'b Dimensions_scheme \<Rightarrow> Scale" where
  "calculateScale bounds container =
     (let scaleX = width container / width bounds;
          scaleY = height container / height bounds;
          scale = Math_min scaleX scaleY
      in \<lparr>scale_x = (if strictEq scale (Num 0) then Num 1 else scale),
          scale_y = (if strictEq scale (Num 0) then Num 1 else scale)\<rparr>)"

definition calculateInitialPosition :: "Bounds \<Rightarrow> 'b Dimensions_scheme \<Rightarrow> number \<Rightarrow> Point" where
  "calculateInitialPosition bounds container scale =
     (let x = (width container - width bounds * scale) / Num 2 - bounds_x bounds * scale;
          y = (height container - height bounds * scale) / Num 2 - bounds_y bounds * scale
      in \<lparr>point_x = x, point_y = y\<rparr>)"

definition getResetTransform :: "Bounds \<Rightarrow> 'b Dimensions_scheme \<Rightarrow> number \<times> Point" where
  "getResetTransform bounds container =
     (let initialScale = calculateScale bounds container;
          scale = scale_x initialScale;
          position = calculateInitialPosition bounds container scale
      in (scale, position))"

definition calculateVisibleRect :: "Point \<Rightarrow> number \<Rightarrow> 'b Dimensions_scheme \<Rightarrow> VisibleRect" where
  "calculateVisibleRect position scale container =
     (let worldX = - point_x position / scale;
          worldY = - point_y position / scale;
          visibleWidth = width container / scale;
          visibleHeight = height container / scale
      in \<lparr>rect_left = worldX, rect_top = worldY,
          rect_right = worldX + visibleWidth, rect_bottom = worldY + visibleHeight\<rparr>)"

text \<open>
  The position limits that \<open>clampPosition\<close> computes from the initial (fit) view, kept as
  a value of their own so that they can be spoken about.
\<close>

record Limits =
  minPosX :: number
  maxPosX :: number
  minPosY :: number
  maxPosY :: number

definition clampLimits :: "number \<Rightarrow> 'b Dimensions_scheme \<Rightarrow> Bounds \<Rightarrow> Limits" where
  "clampLimits scale container bounds =
     (let initialScale = calculateScale bounds container;
          initialPos = calculateInitialPosition bounds container (scale_x initialScale);
          initialRect = calculateVisibleRect initialPos (scale_x initialScale) container
      in \<lparr>minPosX = - rect_right initialRect * scale + width container,
          maxPosX = - rect_left initialRect * scale,
          minPosY = - rect_bottom initialRect * scale + height container,
          maxPosY = - rect_top initialRect * scale\<rparr>)"

definition clampPosition :: "Point \<Rightarrow> number \<Rightarrow> 'b Dimensions_scheme \<Rightarrow> Bounds \<Rightarrow> Point" where
  "clampPosition position scale container bounds =
     (let limits = clampLimits scale container bounds;
          clampedX = Math_max (minPosX limits) (Math_min (maxPosX limits) (point_x position));
          clampedY = Math_max (minPosY limits) (Math_min (maxPosY limits) (point_y position))
      in \<lparr>point_x = clampedX, point_y = clampedY\<rparr>)"

section \<open>Bounds tracker (\<open>useStageBounds\<close>)\<close>

text \<open>
  The hook \<open>useStageBounds\<close> is the second file of \<open>src/unnamed/part_004\<close>.
  A \<open>Box\<close> is the rectangle \<open>getClientRect\<close> returns for a shape, or a world box.
\<close>

record Box =
  box_x :: number
  box_y :: number
  box_width :: number
  box_height :: number

text \<open>
  What \<open>updateBounds\<close> reads of the stage: its scale, its position and the interactive
  layer, which is \<open>None\<close> while it is not mounted and otherwise holds the client
  rectangles of its shapes.
\<close>

record Stage =
  stage_scaleX :: number
  stage_position :: Point
  interactive_layer :: "Box list option"

definition getWorldBox :: "Box \<Rightarrow> number \<Rightarrow> Point \<Rightarrow> Box" where
  "getWorldBox box stageScale stagePos =
     \<lparr>box_x = (box_x box - point_x stagePos) / stageScale,
      box_y = (box_y box - point_y stagePos) / stageScale,
      box_width = box_width box / stageScale,
      box_height = box_height box / stageScale\<rparr>"

record Envelope =
  minX :: number
  minY :: number
  maxX :: number
  maxY :: number

text \<open>The body of the \<open>forEach\<close> loop of \<open>updateBounds\<close>, and the loop.\<close>

definition accumulate :: "number \<Rightarrow> Point \<Rightarrow> Envelope \<Rightarrow> Box \<Rightarrow> Envelope" where
  "accumulate stageScale stagePos acc node =
     (let worldBox = getWorldBox node stageScale stagePos
      in \<lparr>minX = Math_min (minX acc) (box_x worldBox),
          minY = Math_min (minY acc) (box_y worldBox),
          maxX = Math_max (maxX acc) (box_x worldBox + box_width worldBox),
          maxY = Math_max (maxY acc) (box_y worldBox + box_height worldBox)\<rparr>)"

definition envelope :: "number \<Rightarrow> Point \<Rightarrow> Box list \<Rightarrow> Envelope" where
  "envelope stageScale stagePos nodes =
     foldl (accumulate stageScale stagePos)
       \<lparr>minX = MAX_VALUE, minY = MAX_VALUE, maxX = - MAX_VALUE, maxY = - MAX_VALUE\<rparr> nodes"

text \<open>
  The outcomes of \<open>updateBounds\<close>: the three early returns (no stage; layer not mounted,
  with a retry scheduled; no shapes), the dead band, and a commit of new bounds. The
  stored bounds are always an object, so the test \<open>!bounds\<close> of the dead band is false
  and is left out.
\<close>

datatype BoundsUpdate = NoStage | RetryLater | NoShapes | Unchanged | SetBounds Bounds

definition updateBounds ::
  "number option \<Rightarrow> number option \<Rightarrow> Bounds \<Rightarrow> Stage option \<Rightarrow> BoundsUpdate" where
  "updateBounds boundsWidth boundsHeight bounds stageRef =
     (case stageRef of
        None \<Rightarrow> NoStage
      | Some stage \<Rightarrow>
          (let stageScale = stage_scaleX stage;
               stagePos = stage_position stage
           in case interactive_layer stage of
                None \<Rightarrow> RetryLater
              | Some nodes \<Rightarrow>
                  if nodes = [] then NoShapes
                  else
                    (let env = envelope stageScale stagePos nodes;
                         newBounds =
                           \<lparr>width = orElse boundsWidth (Math_round (maxX env + minX env)),
                            height = orElse boundsHeight (Math_round (maxY env + minY env)),
                            bounds_x = Num 0, bounds_y = Num 0\<rparr>
                     in if Num 1 < Math_abs (bounds_x newBounds - bounds_x bounds)
                           \<or> Num 1 < Math_abs (bounds_y newBounds - bounds_y bounds)
                           \<or> Num 1 < Math_abs (width newBounds - width bounds)
                           \<or> Num 1 < Math_abs (height newBounds - height bounds)
                        then SetBounds newBounds
                        else Unchanged)))"

section \<open>Transform model (\<open>src/hooks/useStageTransform.ts\<close>)\<close>

record Options =
  maxZoom :: number
  minZoom :: number
  panSpeed :: number
  zoomSpeed :: number
  clampPositionOption :: bool
  zoomAnimationDuration :: number
  zoomPanTransitionDelay :: number

text \<open>
  The state the hooks keep between events: the \<open>scale\<close> and \<open>position\<close> of
  \<open>useStageTransform\<close>, the dragging flag, and the three refs \<open>lastMousePos\<close>
  (drag handlers), \<open>lastZoomTime\<close> (wheel handlers) and \<open>previousContainer\<close> (resize).
  A handler reads the state of the render it was created in and its setters take effect
  when it returns, so each handler is a function from the state before to the state after.
\<close>

record HookState =
  scale_of :: number
  position_of :: Point
  isDragging :: bool
  lastMousePos :: "Point option"
  lastZoomTime :: number
  previousContainer :: Dimensions

definition clampAndSetPosition ::
  "Options \<Rightarrow> Dimensions \<Rightarrow> Bounds \<Rightarrow> Point \<Rightarrow> number \<Rightarrow> HookState \<Rightarrow> HookState" where
  "clampAndSetPosition options container bounds newPosition newScale st =
     (if \<not> clampPositionOption options then st\<lparr>position_of := newPosition\<rparr>
      else
        (let clampedPosition = clampPosition newPosition newScale container bounds
         in st\<lparr>position_of := clampedPosition\<rparr>))"

text \<open>
  \<open>setPosition\<close> closes over the \<open>scale\<close> of its render, passed here as \<open>scale\<close>;
  the optional argument \<open>newScale\<close> is an \<open>option\<close>.
\<close>

definition setPosition ::
  "Options \<Rightarrow> Dimensions \<Rightarrow> Bounds \<Rightarrow> number \<Rightarrow> Point \<Rightarrow> number option \<Rightarrow> HookState \<Rightarrow> HookState" where
  "setPosition options container bounds scale newPosition newScale st =
     (let st1 = (case newScale of Some s \<Rightarrow> st\<lparr>scale_of := s\<rparr> | None \<Rightarrow> st)
      in clampAndSetPosition options container bounds newPosition
           (case newScale of Some s \<Rightarrow> s | None \<Rightarrow> scale) st1)"

section \<open>Resize adapter (\<open>src/hooks/useStageResize.ts\<close>)\<close>

text \<open>
  The world point shown at the centre of a container, as \<open>updateTransform\<close> computes it
  for the previous container.
\<close>

definition worldCentre :: "Point \<Rightarrow> Dimensions \<Rightarrow> number \<Rightarrow> Point" where
  "worldCentre position container scale =
     \<lparr>point_x = (- point_x position + width container / Num 2) / scale,
      point_y = (- point_y position + height container / Num 2) / scale\<rparr>"

text \<open>The scale and the position \<open>updateTransform\<close> computes, before it commits them.\<close>

definition resizeScale :: "Bounds \<Rightarrow> Dimensions \<Rightarrow> HookState \<Rightarrow> number" where
  "resizeScale bounds container st =
     (let prevBaseScale = calculateScale bounds (previousContainer st);
          newBaseScale = calculateScale bounds container;
          relativeScale = scale_of st / scale_x prevBaseScale
      in scale_x newBaseScale * relativeScale)"

definition resizePosition :: "Bounds \<Rightarrow> Dimensions \<Rightarrow> HookState \<Rightarrow> Point" where
  "resizePosition bounds container st =
     (let prevCenter = worldCentre (position_of st) (previousContainer st) (scale_of st);
          newScale = resizeScale bounds container st
      in \<lparr>point_x = - point_x prevCenter * newScale + width container / Num 2,
          point_y = - point_y prevCenter * newScale + height container / Num 2\<rparr>)"

definition updateTransform :: "Options \<Rightarrow> Bounds \<Rightarrow> Dimensions \<Rightarrow> HookState \<Rightarrow> HookState" where
  "updateTransform options bounds container st =
     (let newScale = resizeScale bounds container st;
          newPosition = resizePosition bounds container st;
          st1 = st\<lparr>scale_of := newScale\<rparr>;
          st2 = setPosition options container bounds (scale_of st) newPosition (Some newScale) st1
      in st2\<lparr>previousContainer := container\<rparr>)"

text \<open>The effect that runs \<open>updateTransform\<close> when a container dimension has changed.\<close>

definition useStageResize :: "Options \<Rightarrow> Bounds \<Rightarrow> Dimensions \<Rightarrow> HookState \<Rightarrow> HookState" where
  "useStageResize options bounds container st =
     (if \<not> strictEq (width container) (width (previousContainer st))
         \<or> \<not> strictEq (height container) (height (previousContainer st))
      then updateTransform options bounds container st
      else st)"

section \<open>Drag controller (\<open>src/hooks/useDragHandlers.ts\<close>)\<close>

text \<open>
  What a handler finds when it asks for the pointer: no stage, or a stage whose
  \<open>getPointerPosition\<close> is \<open>null\<close> or a point.
\<close>

datatype StageRef = Unmounted | Mounted "Point option"

definition handleDragStart :: "StageRef \<Rightarrow> HookState \<Rightarrow> HookState" where
  "handleDragStart stage st =
     (case stage of
        Unmounted \<Rightarrow> st
      | Mounted None \<Rightarrow> st
      | Mounted (Some pointerPos) \<Rightarrow> st\<lparr>isDragging := True, lastMousePos := Some pointerPos\<rparr>)"

definition handleDragEnd :: "HookState \<Rightarrow> HookState" where
  "handleDragEnd st = st\<lparr>isDragging := False, lastMousePos := None\<rparr>"

definition handleDragMove ::
  "Options \<Rightarrow> Dimensions \<Rightarrow> Bounds \<Rightarrow> StageRef \<Rightarrow> HookState \<Rightarrow> HookState" where
  "handleDragMove options container bounds stage st =
     (if \<not> isDragging st then st
      else case lastMousePos st of
        None \<Rightarrow> st
      | Some lastPos \<Rightarrow>
          (case stage of
             Unmounted \<Rightarrow> st
           | Mounted None \<Rightarrow> st
           | Mounted (Some pointerPos) \<Rightarrow>
               (let dx = point_x pointerPos - point_x lastPos;
                    dy = point_y pointerPos - point_y lastPos;
                    newPosition = \<lparr>point_x = point_x (position_of st) + dx,
                                   point_y = point_y (position_of st) + dy\<rparr>
                in setPosition options container bounds (scale_of st) newPosition
                     (Some (scale_of st)) (st\<lparr>lastMousePos := Some pointerPos\<rparr>))))"

section \<open>Zoom controller (\<open>useZoomHandlers\<close>)\<close>

text \<open>
  Modelled from the spec: \<open>useZoomHandlers.ts\<close> is not among the sources, so the zoom
  controller follows section 4.5 of the specification. \<open>clampNumber\<close> is its
  \<open>clamp(v, minZoom, maxZoom)\<close>, written the way \<open>clampPosition\<close> clamps.
\<close>

definition clampNumber :: "number \<Rightarrow> number \<Rightarrow> number \<Rightarrow> number" where
  "clampNumber v lo hi = Math_max lo (Math_min hi v)"

text \<open>
  Modelled from the spec: the \<open>newScale\<close> of \<open>handleZoom\<close> (4.5), with
  \<open>factor = 1 + direction * (delta / zoomSpeed)\<close> and
  \<open>newScale = clamp(scale * factor, minZoom, maxZoom)\<close>. The formula is followed as
  written; the specification's worked scenario reads the sign of \<open>direction\<close> the other
  way round, which changes no property stated below.
\<close>

definition zoomScale :: "Options \<Rightarrow> number \<Rightarrow> number \<Rightarrow> HookState \<Rightarrow> number" where
  "zoomScale options direction delta st =
     (let factor = Num 1 + direction * (delta / zoomSpeed options)
      in clampNumber (scale_of st * factor) (minZoom options) (maxZoom options))"

text \<open>
  Modelled from the spec: the world point under a screen point (4.5),
  \<open>worldAnchor = (pointerScreenPos - position) / scale\<close>.
\<close>

definition worldAnchor :: "Point \<Rightarrow> Point \<Rightarrow> number \<Rightarrow> Point" where
  "worldAnchor pointer position scale =
     \<lparr>point_x = (point_x pointer - point_x position) / scale,
      point_y = (point_y pointer - point_y position) / scale\<rparr>"

text \<open>
  Modelled from the spec: the \<open>newPosition\<close> of \<open>handleZoom\<close> (4.5),
  \<open>newPosition = pointerScreenPos - worldAnchor * newScale\<close>, the anchor taken before
  the change.
\<close>

definition zoomPosition :: "Options \<Rightarrow> Point \<Rightarrow> number \<Rightarrow> number \<Rightarrow> HookState \<Rightarrow> Point" where
  "zoomPosition options pointer direction delta st =
     (let newScale = zoomScale options direction delta st;
          anchor = worldAnchor pointer (position_of st) (scale_of st)
      in \<lparr>point_x = point_x pointer - point_x anchor * newScale,
          point_y = point_y pointer - point_y anchor * newScale\<rparr>)"

text \<open>
  Modelled from the spec: \<open>handleZoom(pointer, direction, delta)\<close> of
  \<open>useZoomHandlers.ts\<close>, which is not among the sources. It commits the new scale and
  the new position through \<open>setPosition\<close> of the transform model (4.5 and 4.2), which is
  the source's.
\<close>

definition handleZoom ::
  "Options \<Rightarrow> Dimensions \<Rightarrow> Bounds \<Rightarrow> Point \<Rightarrow> number \<Rightarrow> number \<Rightarrow> HookState \<Rightarrow> HookState" where
  "handleZoom options container bounds pointer direction delta st =
     setPosition options container bounds (scale_of st)
       (zoomPosition options pointer direction delta st)
       (Some (zoomScale options direction delta st)) st"

text \<open>
  Modelled from the spec: \<open>resetZoom\<close> of \<open>useZoomHandlers.ts\<close> (4.5) sets the
  transform to \<open>resetTransform(bounds, container)\<close>, which is \<open>getResetTransform\<close> of
  the source; an animated reset ends in the same transform. It commits through
  \<open>setPosition\<close>.
\<close>

definition resetZoom :: "Options \<Rightarrow> Dimensions \<Rightarrow> Bounds \<Rightarrow> HookState \<Rightarrow> HookState" where
  "resetZoom options container bounds st =
     (case getResetTransform bounds container of
        (scale, position) \<Rightarrow>
          setPosition options container bounds (scale_of st) position (Some scale) st)"

text \<open>
  Modelled from the spec: \<open>zoomToElement\<close> of \<open>useZoomHandlers.ts\<close> (4.5) computes the
  fit scale and the initial position against the node's world box inflated by the padding,
  clamps the scale to \<open>[minZoom, maxZoom]\<close> and commits. The inflated box is the
  argument \<open>target\<close>: the specification does not fix the unit of \<open>paddingPercent\<close>.
\<close>

definition zoomToElement ::
  "Options \<Rightarrow> Dimensions \<Rightarrow> Bounds \<Rightarrow> Bounds \<Rightarrow> HookState \<Rightarrow> HookState" where
  "zoomToElement options container bounds target st =
     (let scale = clampNumber (scale_x (calculateScale target container))
                    (minZoom options) (maxZoom options);
          position = calculateInitialPosition target container scale
      in setPosition options container bounds (scale_of st) position (Some scale) st)"

text \<open>
  The effect of \<open>useStageTransform\<close> (lines 118 to 122 of the source) that runs
  \<open>resetZoom\<close> when the bounds change, unless \<open>zoom !== 1\<close> or the bounds still have
  the initial width 1. \<open>zoom\<close> is the value \<open>useZoomHandlers\<close> reports.
\<close>

definition autoResetZoom ::
  "number \<Rightarrow> Options \<Rightarrow> Dimensions \<Rightarrow> Bounds \<Rightarrow> HookState \<Rightarrow> HookState" where
  "autoResetZoom zoom options container bounds st =
     (if \<not> strictEq zoom (Num 1) \<or> strictEq (width bounds) (Num 1) then st
      else resetZoom options container bounds st)"

section \<open>Wheel router (\<open>useWheelHandlers\<close>)\<close>

text \<open>
  The hook \<open>useWheelHandlers\<close> is the second file of \<open>src/hooks/transform-utils.ts\<close>.
  A wheel event as the handler sees it: the deltas, the modifier keys, the verdict of the
  intentional-scroll classifier (\<open>lethargy.check\<close>, a black box) and the reading of
  \<open>Date.now()\<close> when the handler runs.
\<close>

record WheelEvent =
  wheel_dx :: number
  wheel_dy :: number
  ctrlKey :: bool
  metaKey :: bool
  isIntentional :: bool
  now :: number

text \<open>
  What the handler does with an event: return early (loading, no stage, no pointer), zoom,
  discard the event, or call the position setter.
\<close>

datatype WheelAction =
  NotHandled
| ZoomAt Point number number
| Discard
| PanTo Point

definition wheelAction :: "Options \<Rightarrow> bool \<Rightarrow> StageRef \<Rightarrow> WheelEvent \<Rightarrow> HookState \<Rightarrow> WheelAction" where
  "wheelAction options loading stage ev st =
     (if loading then NotHandled
      else case stage of
        Unmounted \<Rightarrow> NotHandled
      | Mounted None \<Rightarrow> NotHandled
      | Mounted (Some pointer) \<Rightarrow>
          if ctrlKey ev \<or> metaKey ev then
            (let direction = (if Num 0 < wheel_dy ev then Num 1 else Num (- 1))
             in ZoomAt pointer direction (Math_abs (wheel_dy ev)))
          else
            (let timeSinceZoom = now ev - lastZoomTime st
             in if \<not> isIntentional ev \<and> timeSinceZoom \<le> zoomPanTransitionDelay options
                then Discard
                else PanTo \<lparr>point_x = point_x (position_of st)
                                        - wheel_dx ev * Math_sqrt (panSpeed options),
                            point_y = point_y (position_of st)
                                        - wheel_dy ev * Math_sqrt (panSpeed options)\<rparr>))"

text \<open>
  The handler: the action carried out. \<open>zoom\<close> stands for the \<open>handleZoom\<close> the hook
  is given.
\<close>

definition onWheel ::
  "(Point \<Rightarrow> number \<Rightarrow> number \<Rightarrow> HookState \<Rightarrow> HookState) \<Rightarrow> Options \<Rightarrow> Dimensions \<Rightarrow> Bounds
     \<Rightarrow> bool \<Rightarrow> StageRef \<Rightarrow> WheelEvent \<Rightarrow> HookState \<Rightarrow> HookState" where
  "onWheel zoom options container bounds loading stage ev st =
     (case wheelAction options loading stage ev st of
        NotHandled \<Rightarrow> st
      | ZoomAt pointer direction delta \<Rightarrow>
          (zoom pointer direction delta st)\<lparr>lastZoomTime := now ev\<rparr>
      | Discard \<Rightarrow> st
      | PanTo newPosition \<Rightarrow>
          setPosition options container bounds (scale_of st) newPosition None st)"

text \<open>The \<open>keyup\<close> listener; \<open>t\<close> is the reading of \<open>Date.now()\<close>.\<close>

definition handleKeyUp :: "string \<Rightarrow> number \<Rightarrow> HookState \<Rightarrow> HookState" where
  "handleKeyUp key t st =
     (if key = ''Meta'' \<or> key = ''Control'' then st\<lparr>lastZoomTime := t\<rparr> else st)"

text \<open>The zoom range of the options.\<close>

definition inZoomRange :: "Options \<Rightarrow> number \<Rightarrow> bool" where
  "inZoomRange options s = (minZoom options \<le> s \<and> s \<le> maxZoom options)"

text \<open>
  The handler run over successive wheel events, each with the \<open>loading\<close> flag and the
  stage it finds.
\<close>

definition onWheelEvents ::
  "(Point \<Rightarrow> number \<Rightarrow> number \<Rightarrow> HookState \<Rightarrow> HookState) \<Rightarrow> Options \<Rightarrow> Dimensions \<Rightarrow> Bounds
     \<Rightarrow> (bool \<times> StageRef \<times> WheelEvent) list \<Rightarrow> HookState \<Rightarrow> HookState" where
  "onWheelEvents zoom options container bounds events st =
     foldl (\<lambda>s (loading, stage, ev). onWheel zoom options container bounds loading stage ev s)
       st events"

section \<open>Sample values\<close>

text \<open>Shorthand for the concrete inputs of the examples below.\<close>

abbreviation dims :: "real \<Rightarrow> real \<Rightarrow> Dimensions" where
  "dims w h \<equiv> \<lparr>width = Num w, height = Num h\<rparr>"

abbreviation origin_bounds :: "real \<Rightarrow> real \<Rightarrow> Bounds" where
  "origin_bounds w h \<equiv> \<lparr>width = Num w, height = Num h, bounds_x = Num 0, bounds_y = Num 0\<rparr>"

abbreviation point :: "real \<Rightarrow> real \<Rightarrow> Point" where
  "point a b \<equiv> \<lparr>point_x = Num a, point_y = Num b\<rparr>"

abbreviation sample_options :: "bool \<Rightarrow> Options" where
  "sample_options clamp \<equiv>
     \<lparr>maxZoom = Num 5, minZoom = Num 1, panSpeed = Num 1, zoomSpeed = Num 5,
      clampPositionOption = clamp, zoomAnimationDuration = Num 0,
      zoomPanTransitionDelay = Num 100\<rparr>"

abbreviation sample_state :: "real \<Rightarrow> Point \<Rightarrow> real \<Rightarrow> Dimensions \<Rightarrow> HookState" where
  "sample_state s p t c \<equiv>
     \<lparr>scale_of = Num s, position_of = p, isDragging = False, lastMousePos = None,
      lastZoomTime = Num t, previousContainer = c\<rparr>"

abbreviation sample_wheel :: "real \<Rightarrow> real \<Rightarrow> bool \<Rightarrow> real \<Rightarrow> WheelEvent" where
  "sample_wheel dx dy ctrl t \<equiv>
     \<lparr>wheel_dx = Num dx, wheel_dy = Num dy, ctrlKey = ctrl, metaKey = False,
      isIntentional = False, now = Num t\<rparr>"

section \<open>Facts about numbers\<close>

lemma positive_finite:
  assumes "isFinite a" "Num 0 < a"
  obtains r where "a = Num r" "0 < r"
  using assms by (cases a) simp_all

lemma finite_Num:
  assumes "isFinite a"
  obtains r where "a = Num r"
  using assms by (cases a) simp_all

lemma isFinite_abs:
  assumes "isFinite a"
  shows "isFinite (Math_abs a)"
  using assms by (cases a) simp_all

lemma clamp_number_idem:
  "Math_max lo (Math_min hi (Math_max lo (Math_min hi v))) = Math_max lo (Math_min hi v)"
  by (cases lo; cases hi; cases v) (simp_all add: min_def max_def)

lemma clamp_collapsed:
  assumes "p \<noteq> NaN"
  shows "Math_max (Num a) (Math_min (Num a) p) = Num a"
  using assms by (cases p) simp_all

lemma fit_positive:
  fixes cw bw ch bh :: real
  assumes "0 < cw" "0 < bw" "0 < ch" "0 < bh"
  shows "0 < min (cw / bw) (ch / bh)" and "min (cw / bw) (ch / bh) \<noteq> 0"
  using assms by (simp_all add: min_def)

section \<open>The fit scale\<close>

lemma calculateScale_Num:
  assumes "width bounds = Num bw" "height bounds = Num bh"
    and "width container = Num cw" "height container = Num ch"
    and "0 < bw" "0 < bh" "0 < cw" "0 < ch"
  shows "calculateScale bounds container =
           \<lparr>scale_x = Num (min (cw / bw) (ch / bh)), scale_y = Num (min (cw / bw) (ch / bh))\<rparr>"
proof -
  define m where "m = min (cw / bw) (ch / bh)"
  have nz: "m \<noteq> 0"
    unfolding m_def using assms(7,5,8,6) by (rule fit_positive)
  have "width container / width bounds = Num (cw / bw)"
    and "height container / height bounds = Num (ch / bh)"
    using assms by simp_all
  then have "Math_min (width container / width bounds) (height container / height bounds) = Num m"
    by (simp add: m_def)
  then show ?thesis
    using nz by (simp add: calculateScale_def Let_def flip: m_def)
qed

text \<open>
  For positive finite dimensions the fit scale is a positive finite number: never 0,
  never \<open>NaN\<close>.
\<close>

lemma calculateScale_positive_dimensions:
  assumes "isFinite (width bounds)" "Num 0 < width bounds"
    and "isFinite (height bounds)" "Num 0 < height bounds"
    and "isFinite (width container)" "Num 0 < width container"
    and "isFinite (height container)" "Num 0 < height container"
  shows "isFinite (scale_x (calculateScale bounds container))
       \<and> Num 0 < scale_x (calculateScale bounds container)
       \<and> scale_y (calculateScale bounds container) = scale_x (calculateScale bounds container)"
proof -
  obtain bw where bw: "width bounds = Num bw" "0 < bw"
    using assms(1,2) by (rule positive_finite)
  obtain bh where bh: "height bounds = Num bh" "0 < bh"
    using assms(3,4) by (rule positive_finite)
  obtain cw where cw: "width container = Num cw" "0 < cw"
    using assms(5,6) by (rule positive_finite)
  obtain ch where ch: "height container = Num ch" "0 < ch"
    using assms(7,8) by (rule positive_finite)
  have "0 < min (cw / bw) (ch / bh)"
    using cw(2) bw(2) ch(2) bh(2) by (rule fit_positive)
  then show ?thesis
    by (simp add: calculateScale_Num[OF bw(1) bh(1) cw(1) ch(1) bw(2) bh(2) cw(2) ch(2)])
qed

text \<open>
  C5. For bounds and container with strictly positive dimensions \<open>calculateScale\<close> never
  returns 0 or \<open>NaN\<close>, and it returns 1 whenever a dimension of the bounds or of the
  container is 0. The first half holds (\<open>calculateScale_positive_dimensions\<close>). The
  code returns 1 only when the computed minimum is 0, that is when a container dimension
  is 0. A bounds dimension of 0 is a division by zero, which the comment in the code says
  it turns into the scale 1: the quotient is \<open>Infinity\<close> (or \<open>NaN\<close> for 0 / 0), not
  0, so the guard does not see it. At bounds 0 x 10 in a container 100 x 100 the result is
  10, at bounds 0 x 0 in that container it is \<open>Infinity\<close>, and at bounds 0 x 0 in a
  container 0 x 0 it is \<open>NaN\<close>.
\<close>

theorem calculateScale_zero_bounds_dimension:
  "calculateScale (dims 0 10) (dims 100 100) = \<lparr>scale_x = Num 10, scale_y = Num 10\<rparr>
   \<and> calculateScale (dims 0 0) (dims 100 100) = \<lparr>scale_x = Infinity, scale_y = Infinity\<rparr>
   \<and> calculateScale (dims 0 0) (dims 0 0) = \<lparr>scale_x = NaN, scale_y = NaN\<rparr>"
  by (simp add: calculateScale_def Let_def)

section \<open>Clamping\<close>

lemma calculateInitialPosition_Num:
  assumes "width bounds = Num bw" "height bounds = Num bh"
    and "width container = Num cw" "height container = Num ch"
    and "bounds_x bounds = Num ox" "bounds_y bounds = Num oy"
  shows "calculateInitialPosition bounds container (Num s) =
           \<lparr>point_x = Num ((cw - bw * s) / 2 - ox * s), point_y = Num ((ch - bh * s) / 2 - oy * s)\<rparr>"
  using assms by (simp add: calculateInitialPosition_def Let_def)

lemma clampLimits_at_fit:
  assumes "width bounds = Num bw" "height bounds = Num bh"
    and "width container = Num cw" "height container = Num ch"
    and "bounds_x bounds = Num ox" "bounds_y bounds = Num oy"
    and "0 < bw" "0 < bh" "0 < cw" "0 < ch"
    and "s = min (cw / bw) (ch / bh)"
  shows "clampLimits (Num s) container bounds =
           \<lparr>minPosX = Num ((cw - bw * s) / 2 - ox * s), maxPosX = Num ((cw - bw * s) / 2 - ox * s),
            minPosY = Num ((ch - bh * s) / 2 - oy * s), maxPosY = Num ((ch - bh * s) / 2 - oy * s)\<rparr>"
proof -
  have s: "s \<noteq> 0"
    unfolding assms(11) using assms(9,7,10,8) by (rule fit_positive)
  have fit: "calculateScale bounds container = \<lparr>scale_x = Num s, scale_y = Num s\<rparr>"
    using assms calculateScale_Num[of bounds bw bh container cw ch] by simp
  show ?thesis
    using s assms(1-6)
    by (simp add: clampLimits_def fit calculateInitialPosition_def calculateVisibleRect_def
        Let_def field_simps)
qed

text \<open>
  C6, counterexample. At the fit scale 0.8 of bounds 1000 x 500 in a container 800 x 400
  the initial position is (0, 0), but the candidate whose x is \<open>NaN\<close> is clamped to a
  position whose x is \<open>NaN\<close>: \<open>Math.min\<close> and \<open>Math.max\<close> hand \<open>NaN\<close> on. So
  not every candidate is clamped to the initial position.
\<close>

theorem clampPosition_NaN_candidate:
  "Num (4 / 5) = scale_x (calculateScale (origin_bounds 1000 500) (dims 800 400))
   \<and> clampPosition \<lparr>point_x = NaN, point_y = Num 0\<rparr> (Num (4 / 5)) (dims 800 400)
       (origin_bounds 1000 500)
     = \<lparr>point_x = NaN, point_y = Num 0\<rparr>
   \<and> calculateInitialPosition (origin_bounds 1000 500) (dims 800 400) (Num (4 / 5)) = point 0 0
   \<and> clampPosition \<lparr>point_x = NaN, point_y = Num 0\<rparr> (Num (4 / 5)) (dims 800 400)
       (origin_bounds 1000 500)
     \<noteq> calculateInitialPosition (origin_bounds 1000 500) (dims 800 400) (Num (4 / 5))"
  by (simp add: clampPosition_def clampLimits_def calculateScale_def
      calculateInitialPosition_def calculateVisibleRect_def Let_def)

text \<open>
  C6, as amended. For bounds and container with positive (finite) dimensions and a finite
  bounds origin, when the scale is the fit scale \<open>calculateScale bounds container\<close>, the
  limits \<open>clampPosition\<close> computes coincide with the initial position on each axis, and
  every candidate position that is a number (not \<open>NaN\<close>; infinite ones included) is
  clamped to \<open>calculateInitialPosition bounds container scale\<close>: no panning at the fit
  scale. Both hold within floating tolerance: they are identities of exact arithmetic,
  proved here in the exact arithmetic of \<open>number\<close>, and the rounding of doubles can
  separate the two limits by a few units in the last place.
\<close>

theorem clampPosition_at_fit_scale:
  assumes "isFinite (width bounds)" "Num 0 < width bounds"
    and "isFinite (height bounds)" "Num 0 < height bounds"
    and "isFinite (width container)" "Num 0 < width container"
    and "isFinite (height container)" "Num 0 < height container"
    and "isFinite (bounds_x bounds)" "isFinite (bounds_y bounds)"
    and "point_x position \<noteq> NaN" "point_y position \<noteq> NaN"
    and "scale = scale_x (calculateScale bounds container)"
  shows "minPosX (clampLimits scale container bounds)
           = point_x (calculateInitialPosition bounds container scale)
       \<and> maxPosX (clampLimits scale container bounds)
           = point_x (calculateInitialPosition bounds container scale)
       \<and> minPosY (clampLimits scale container bounds)
           = point_y (calculateInitialPosition bounds container scale)
       \<and> maxPosY (clampLimits scale container bounds)
           = point_y (calculateInitialPosition bounds container scale)
       \<and> clampPosition position scale container bounds
           = calculateInitialPosition bounds container scale"
proof -
  obtain bw where bw: "width bounds = Num bw" "0 < bw"
    using assms(1,2) by (rule positive_finite)
  obtain bh where bh: "height bounds = Num bh" "0 < bh"
    using assms(3,4) by (rule positive_finite)
  obtain cw where cw: "width container = Num cw" "0 < cw"
    using assms(5,6) by (rule positive_finite)
  obtain ch where ch: "height container = Num ch" "0 < ch"
    using assms(7,8) by (rule positive_finite)
  obtain ox where ox: "bounds_x bounds = Num ox"
    using assms(9) by (rule finite_Num)
  obtain oy where oy: "bounds_y bounds = Num oy"
    using assms(10) by (rule finite_Num)
  define s where "s = min (cw / bw) (ch / bh)"
  have scale: "scale = Num s"
    using calculateScale_Num[OF bw(1) bh(1) cw(1) ch(1) bw(2) bh(2) cw(2) ch(2)]
    by (simp add: assms(13) s_def)
  have limits: "clampLimits (Num s) container bounds =
      \<lparr>minPosX = Num ((cw - bw * s) / 2 - ox * s), maxPosX = Num ((cw - bw * s) / 2 - ox * s),
       minPosY = Num ((ch - bh * s) / 2 - oy * s), maxPosY = Num ((ch - bh * s) / 2 - oy * s)\<rparr>"
    using bw(1) bh(1) cw(1) ch(1) ox oy bw(2) bh(2) cw(2) ch(2) s_def
    by (rule clampLimits_at_fit)
  have initial: "calculateInitialPosition bounds container (Num s) =
      \<lparr>point_x = Num ((cw - bw * s) / 2 - ox * s), point_y = Num ((ch - bh * s) / 2 - oy * s)\<rparr>"
    using bw(1) bh(1) cw(1) ch(1) ox oy by (rule calculateInitialPosition_Num)
  show ?thesis
    using assms(11,12)
    by (simp add: scale limits initial clampPosition_def Let_def clamp_collapsed)
qed

text \<open>
  The scenario of the specification: bounds 1000 x 500 at the origin in a container
  800 x 400 have fit scale 0.8 and initial position (0, 0), and a candidate (37, -12) is
  clamped to it.
\<close>

theorem clampPosition_at_fit_scale_witness:
  "Num (4 / 5) = scale_x (calculateScale (origin_bounds 1000 500) (dims 800 400))
   \<and> calculateInitialPosition (origin_bounds 1000 500) (dims 800 400) (Num (4 / 5)) = point 0 0
   \<and> clampPosition (point 37 (- 12)) (Num (4 / 5)) (dims 800 400) (origin_bounds 1000 500)
      = point 0 0"
proof -
  have fit: "Num (4 / 5) = scale_x (calculateScale (origin_bounds 1000 500) (dims 800 400))"
    by (simp add: calculateScale_def Let_def)
  have initial:
    "calculateInitialPosition (origin_bounds 1000 500) (dims 800 400) (Num (4 / 5)) = point 0 0"
    by (simp add: calculateInitialPosition_def Let_def)
  have "clampPosition (point 37 (- 12)) (Num (4 / 5)) (dims 800 400) (origin_bounds 1000 500)
      = point 0 0"
    using clampPosition_at_fit_scale[of "origin_bounds 1000 500" "dims 800 400"
        "point 37 (- 12)" "Num (4 / 5)", OF _ _ _ _ _ _ _ _ _ _ _ _ fit]
    by (simp add: initial)
  then show ?thesis
    using fit initial by simp
qed

text \<open>
  C7. \<open>clampPosition\<close> is idempotent: for every position, scale, container and bounds
  (special values included), clamping a clamped position returns it unchanged.
\<close>

theorem clampPosition_idempotent:
  "clampPosition (clampPosition position scale container bounds) scale container bounds
     = clampPosition position scale container bounds"
  by (simp add: clampPosition_def Let_def clamp_number_idem)

section \<open>The bounds tracker\<close>

text \<open>
  C1. For a non-empty set of nodes and no manual bounds, the bounds \<open>updateBounds\<close>
  commits are the smallest world-space box enclosing the content, of width
  \<open>maxX - minX\<close> and height \<open>maxY - minY\<close> of the accumulated envelope. The code commits
  a box at the origin of width \<open>Math.round(maxX + minX)\<close> and height
  \<open>Math.round(maxY + minY)\<close>. For one shape with client rectangle (100, 100, 100, 100)
  on an untransformed stage the envelope is 100..200 on each axis and the committed bounds
  are 300 x 300, not 100 x 100; for one shape with client rectangle (-150, -150, 200, 200)
  the envelope is -150..50 and the committed bounds are -100 x -100, a box that encloses
  nothing.
\<close>

theorem updateBounds_adds_min_and_max:
  "envelope (Num 1) (point 0 0)
       [\<lparr>box_x = Num 100, box_y = Num 100, box_width = Num 100, box_height = Num 100\<rparr>]
     = \<lparr>minX = Num 100, minY = Num 100, maxX = Num 200, maxY = Num 200\<rparr>
   \<and> updateBounds None None (origin_bounds 1 1)
       (Some \<lparr>stage_scaleX = Num 1, stage_position = point 0 0,
              interactive_layer = Some
                [\<lparr>box_x = Num 100, box_y = Num 100, box_width = Num 100, box_height = Num 100\<rparr>]\<rparr>)
     = SetBounds (origin_bounds 300 300)
   \<and> envelope (Num 1) (point 0 0)
       [\<lparr>box_x = Num (- 150), box_y = Num (- 150), box_width = Num 200, box_height = Num 200\<rparr>]
     = \<lparr>minX = Num (- 150), minY = Num (- 150), maxX = Num 50, maxY = Num 50\<rparr>
   \<and> updateBounds None None (origin_bounds 1 1)
       (Some \<lparr>stage_scaleX = Num 1, stage_position = point 0 0,
              interactive_layer = Some
                [\<lparr>box_x = Num (- 150), box_y = Num (- 150), box_width = Num 200,
                  box_height = Num 200\<rparr>]\<rparr>)
     = SetBounds (origin_bounds (- 100) (- 100))"
  by (simp add: updateBounds_def envelope_def accumulate_def getWorldBox_def MAX_VALUE_def)

section \<open>The committed scale\<close>

lemma zoomScale_Num:
  assumes "scale_of st = Num s" "direction = Num d" "delta = Num e"
    and "zoomSpeed options = Num z" "z \<noteq> 0"
    and "minZoom options = Num lo" "maxZoom options = Num hi"
  shows "zoomScale options direction delta st = Num (max lo (min hi (s * (1 + d * (e / z)))))"
  using assms by (simp add: zoomScale_def clampNumber_def Let_def)

lemma handleZoom_scale:
  "scale_of (handleZoom options container bounds pointer direction delta st)
     = zoomScale options direction delta st"
  by (simp add: handleZoom_def setPosition_def clampAndSetPosition_def Let_def)

lemma handleDragMove_scale:
  "scale_of (handleDragMove options container bounds stage st) = scale_of st"
  by (simp add: handleDragMove_def setPosition_def clampAndSetPosition_def Let_def
      split: option.split StageRef.split)

lemma updateTransform_scale:
  "scale_of (updateTransform options bounds container st) = resizeScale bounds container st"
  by (simp add: updateTransform_def setPosition_def clampAndSetPosition_def Let_def)

lemma zoomScale_in_range:
  assumes "isFinite (minZoom options)" "isFinite (maxZoom options)"
    and "minZoom options \<le> maxZoom options"
    and "isFinite (zoomSpeed options)" "zoomSpeed options \<noteq> Num 0"
    and "isFinite (scale_of st)" "isFinite direction" "isFinite delta"
  shows "inZoomRange options (zoomScale options direction delta st)"
proof -
  obtain lo where lo: "minZoom options = Num lo"
    using assms(1) by (rule finite_Num)
  obtain hi where hi: "maxZoom options = Num hi"
    using assms(2) by (rule finite_Num)
  obtain z where z: "zoomSpeed options = Num z"
    using assms(4) by (rule finite_Num)
  obtain s where s: "scale_of st = Num s"
    using assms(6) by (rule finite_Num)
  obtain d where d: "direction = Num d"
    using assms(7) by (rule finite_Num)
  obtain e where e: "delta = Num e"
    using assms(8) by (rule finite_Num)
  have z0: "z \<noteq> 0"
    using assms(5) z by simp
  have "lo \<le> hi"
    using assms(3) lo hi by simp
  then show ?thesis
    by (simp add: inZoomRange_def zoomScale_Num[OF s d e z z0 lo hi] lo hi)
qed

lemma wheelAction_ZoomAt:
  assumes "wheelAction options loading stage ev st = ZoomAt pointer direction delta"
  shows "direction = Num 1 \<or> direction = Num (- 1)" and "delta = Math_abs (wheel_dy ev)"
  using assms
  by (simp_all add: wheelAction_def Let_def split: if_splits StageRef.splits option.splits)

lemma onWheel_scale:
  assumes "isFinite (minZoom options)" "isFinite (maxZoom options)"
    and "minZoom options \<le> maxZoom options"
    and "isFinite (zoomSpeed options)" "zoomSpeed options \<noteq> Num 0"
    and "isFinite (scale_of st)" "inZoomRange options (scale_of st)"
    and "isFinite (wheel_dy ev)"
  shows "inZoomRange options
           (scale_of (onWheel (handleZoom options container bounds) options container bounds
                        loading stage ev st))"
proof (cases "wheelAction options loading stage ev st")
  case NotHandled
  then show ?thesis
    using assms(7) by (simp add: onWheel_def)
next
  case (ZoomAt pointer direction delta)
  have "isFinite direction"
    using wheelAction_ZoomAt(1)[OF ZoomAt] by auto
  moreover have "isFinite delta"
    using wheelAction_ZoomAt(2)[OF ZoomAt] assms(8) by (simp add: isFinite_abs)
  ultimately have "inZoomRange options (zoomScale options direction delta st)"
    using assms(1-6) by (intro zoomScale_in_range)
  then show ?thesis
    using ZoomAt by (simp add: onWheel_def handleZoom_scale)
next
  case Discard
  then show ?thesis
    using assms(7) by (simp add: onWheel_def)
next
  case (PanTo newPosition)
  then show ?thesis
    using assms(7) by (simp add: onWheel_def setPosition_def clampAndSetPosition_def Let_def)
qed

lemma resizeScale_Num:
  assumes "width bounds = Num bw" "height bounds = Num bh"
    and "width (previousContainer st) = Num pw" "height (previousContainer st) = Num ph"
    and "width container = Num cw" "height container = Num ch"
    and "0 < bw" "0 < bh" "0 < pw" "0 < ph" "0 < cw" "0 < ch"
    and "scale_of st = Num s"
  shows "resizeScale bounds container st
           = Num (min (cw / bw) (ch / bh) * (s / min (pw / bw) (ph / bh)))"
proof -
  have prev: "calculateScale bounds (previousContainer st)
      = \<lparr>scale_x = Num (min (pw / bw) (ph / bh)), scale_y = Num (min (pw / bw) (ph / bh))\<rparr>"
    using assms by (intro calculateScale_Num)
  have new: "calculateScale bounds container
      = \<lparr>scale_x = Num (min (cw / bw) (ch / bh)), scale_y = Num (min (cw / bw) (ch / bh))\<rparr>"
    using assms by (intro calculateScale_Num)
  have "min (pw / bw) (ph / bh) \<noteq> 0"
    using assms by (intro fit_positive)
  then show ?thesis
    by (simp add: resizeScale_def prev new Let_def assms(13))
qed

lemma useStageResize_relative_scale:
  assumes "isFinite (width bounds)" "Num 0 < width bounds"
    and "isFinite (height bounds)" "Num 0 < height bounds"
    and "isFinite (width (previousContainer st))" "Num 0 < width (previousContainer st)"
    and "isFinite (height (previousContainer st))" "Num 0 < height (previousContainer st)"
    and "isFinite (width container)" "Num 0 < width container"
    and "isFinite (height container)" "Num 0 < height container"
    and "isFinite (scale_of st)"
  shows "scale_of (useStageResize options bounds container st)
             / scale_x (calculateScale bounds container)
           = scale_of st / scale_x (calculateScale bounds (previousContainer st))"
proof -
  obtain bw where bw: "width bounds = Num bw" "0 < bw"
    using assms(1,2) by (rule positive_finite)
  obtain bh where bh: "height bounds = Num bh" "0 < bh"
    using assms(3,4) by (rule positive_finite)
  obtain pw where pw: "width (previousContainer st) = Num pw" "0 < pw"
    using assms(5,6) by (rule positive_finite)
  obtain ph where ph: "height (previousContainer st) = Num ph" "0 < ph"
    using assms(7,8) by (rule positive_finite)
  obtain cw where cw: "width container = Num cw" "0 < cw"
    using assms(9,10) by (rule positive_finite)
  obtain ch where ch: "height container = Num ch" "0 < ch"
    using assms(11,12) by (rule positive_finite)
  obtain s where s: "scale_of st = Num s"
    using assms(13) by (rule finite_Num)
  have prev: "calculateScale bounds (previousContainer st)
      = \<lparr>scale_x = Num (min (pw / bw) (ph / bh)), scale_y = Num (min (pw / bw) (ph / bh))\<rparr>"
    using bw(1) bh(1) pw(1) ph(1) bw(2) bh(2) pw(2) ph(2) by (rule calculateScale_Num)
  have new: "calculateScale bounds container
      = \<lparr>scale_x = Num (min (cw / bw) (ch / bh)), scale_y = Num (min (cw / bw) (ch / bh))\<rparr>"
    using bw(1) bh(1) cw(1) ch(1) bw(2) bh(2) cw(2) ch(2) by (rule calculateScale_Num)
  have p0: "min (pw / bw) (ph / bh) \<noteq> 0"
    using pw(2) bw(2) ph(2) bh(2) by (rule fit_positive)
  have c0: "min (cw / bw) (ch / bh) \<noteq> 0"
    using cw(2) bw(2) ch(2) bh(2) by (rule fit_positive)
  show ?thesis
  proof (cases "strictEq (width container) (width (previousContainer st))
                \<and> strictEq (height container) (height (previousContainer st))")
    case True
    then have "cw = pw" "ch = ph"
      using cw pw ch ph by simp_all
    then show ?thesis
      using True by (simp add: useStageResize_def prev new)
  next
    case False
    have after: "useStageResize options bounds container st
                   = updateTransform options bounds container st"
      using False by (auto simp add: useStageResize_def)
    have "resizeScale bounds container st
            = Num (min (cw / bw) (ch / bh) * (s / min (pw / bw) (ph / bh)))"
      using bw(1) bh(1) pw(1) ph(1) cw(1) ch(1) bw(2) bh(2) pw(2) ph(2) cw(2) ch(2) s
      by (rule resizeScale_Num)
    then show ?thesis
      using p0 c0 by (simp add: after updateTransform_scale prev new s)
  qed
qed

lemma resetZoom_scale:
  "scale_of (resetZoom options container bounds st) = scale_x (calculateScale bounds container)"
  by (simp add: resetZoom_def getResetTransform_def setPosition_def clampAndSetPosition_def
      Let_def)

lemma zoomToElement_scale:
  "scale_of (zoomToElement options container bounds target st)
     = clampNumber (scale_x (calculateScale target container)) (minZoom options) (maxZoom options)"
  by (simp add: zoomToElement_def setPosition_def clampAndSetPosition_def Let_def)

lemma zoomToElement_in_range:
  assumes "isFinite (minZoom options)" "isFinite (maxZoom options)"
    and "minZoom options \<le> maxZoom options"
    and "isFinite (width target)" "Num 0 < width target"
    and "isFinite (height target)" "Num 0 < height target"
    and "isFinite (width container)" "Num 0 < width container"
    and "isFinite (height container)" "Num 0 < height container"
  shows "inZoomRange options (scale_of (zoomToElement options container bounds target st))"
proof -
  obtain lo where lo: "minZoom options = Num lo"
    using assms(1) by (rule finite_Num)
  obtain hi where hi: "maxZoom options = Num hi"
    using assms(2) by (rule finite_Num)
  obtain tw where tw: "width target = Num tw" "0 < tw"
    using assms(4,5) by (rule positive_finite)
  obtain th where th: "height target = Num th" "0 < th"
    using assms(6,7) by (rule positive_finite)
  obtain cw where cw: "width container = Num cw" "0 < cw"
    using assms(8,9) by (rule positive_finite)
  obtain ch where ch: "height container = Num ch" "0 < ch"
    using assms(10,11) by (rule positive_finite)
  have "lo \<le> hi"
    using assms(3) lo hi by simp
  then show ?thesis
    by (simp add: zoomToElement_scale inZoomRange_def clampNumber_def lo hi
        calculateScale_Num[OF tw(1) th(1) cw(1) ch(1) tw(2) th(2) cw(2) ch(2)])
qed

text \<open>
  C2, counterexample. With \<open>minZoom = 1\<close> and \<open>maxZoom = 5\<close>, bounds 100 x 100 and a
  scale of 5 in a container 100 x 100 (fit scale 1), a resize of the container to
  200 x 200 (fit scale 2) commits the scale \<open>2 * (5 / 1) = 10\<close>, outside the zoom range
  although the scale before the resize was inside it. And at the initial scale 1, when the
  bounds become 1000 x 500 in a container 800 x 400, the automatic \<open>resetZoom\<close> commits
  the fit scale 0.8, below \<open>minZoom\<close>.
\<close>

theorem resize_leaves_zoom_range:
  "inZoomRange (sample_options True) (Num 5)
   \<and> useStageResize (sample_options True) (origin_bounds 100 100) (dims 200 200)
       (sample_state 5 (point 0 0) 0 (dims 100 100))
     = sample_state 10 (point 0 0) 0 (dims 200 200)
   \<and> \<not> inZoomRange (sample_options True) (Num 10)
   \<and> inZoomRange (sample_options True) (Num 1)
   \<and> autoResetZoom (Num 1) (sample_options True) (dims 800 400) (origin_bounds 1000 500)
       (sample_state 1 (point 0 0) 0 (dims 800 400))
     = sample_state (4 / 5) (point 0 0) 0 (dims 800 400)
   \<and> \<not> inZoomRange (sample_options True) (Num (4 / 5))"
  by (simp add: inZoomRange_def useStageResize_def updateTransform_def resizeScale_def
      resizePosition_def worldCentre_def calculateScale_def setPosition_def
      clampAndSetPosition_def clampPosition_def clampLimits_def calculateInitialPosition_def
      calculateVisibleRect_def autoResetZoom_def resetZoom_def getResetTransform_def Let_def)

text \<open>
  C2, as amended. From a state whose scale is finite and lies in
  \<open>[minZoom, maxZoom]\<close>, with \<open>minZoom \<le> maxZoom\<close>, a non-zero \<open>zoomSpeed\<close> and
  positive dimensions: \<open>handleZoom\<close> commits a scale in the range, and so does
  \<open>zoomToElement\<close> for a target box with positive dimensions; a drag move commits the
  scale it found; the wheel handler (which zooms through \<open>handleZoom\<close>, pans or discards)
  commits a scale in the range. Two controllers do not clamp. \<open>resetZoom\<close> commits the
  fit scale of the bounds in the container, whatever the zoom range. The resize adapter
  commits the scale that keeps the zoom relative to the fit scale: the new scale over the
  fit scale of the new container is the old scale over the fit scale of the previous
  container (within floating tolerance; an identity in exact arithmetic).
\<close>

theorem committed_scale_by_controller:
  assumes "isFinite (minZoom options)" "isFinite (maxZoom options)"
    and "minZoom options \<le> maxZoom options"
    and "isFinite (zoomSpeed options)" "zoomSpeed options \<noteq> Num 0"
    and "isFinite (scale_of st)" "inZoomRange options (scale_of st)"
    and "isFinite direction" "isFinite delta" "isFinite (wheel_dy ev)"
    and "isFinite (width bounds)" "Num 0 < width bounds"
    and "isFinite (height bounds)" "Num 0 < height bounds"
    and "isFinite (width (previousContainer st))" "Num 0 < width (previousContainer st)"
    and "isFinite (height (previousContainer st))" "Num 0 < height (previousContainer st)"
    and "isFinite (width container)" "Num 0 < width container"
    and "isFinite (height container)" "Num 0 < height container"
    and "isFinite (width target)" "Num 0 < width target"
    and "isFinite (height target)" "Num 0 < height target"
  shows "inZoomRange options
           (scale_of (handleZoom options container bounds pointer direction delta st))
       \<and> inZoomRange options (scale_of (zoomToElement options container bounds target st))
       \<and> scale_of (handleDragMove options container bounds stage st) = scale_of st
       \<and> inZoomRange options
           (scale_of (onWheel (handleZoom options container bounds) options container bounds
                        loading stage ev st))
       \<and> scale_of (resetZoom options container bounds st)
           = scale_x (calculateScale bounds container)
       \<and> scale_of (useStageResize options bounds container st)
             / scale_x (calculateScale bounds container)
           = scale_of st / scale_x (calculateScale bounds (previousContainer st))"
proof -
  have "inZoomRange options (zoomScale options direction delta st)"
    using assms(1-6,8,9) by (rule zoomScale_in_range)
  moreover have "inZoomRange options
           (scale_of (zoomToElement options container bounds target st))"
    using assms(1-3,23-26,19-22) by (rule zoomToElement_in_range)
  moreover have "inZoomRange options
           (scale_of (onWheel (handleZoom options container bounds) options container bounds
                        loading stage ev st))"
    using assms(1-7,10) by (rule onWheel_scale)
  moreover have "scale_of (useStageResize options bounds container st)
             / scale_x (calculateScale bounds container)
           = scale_of st / scale_x (calculateScale bounds (previousContainer st))"
    using assms(11-22,6) by (rule useStageResize_relative_scale)
  ultimately show ?thesis
    by (simp add: handleZoom_scale handleDragMove_scale resetZoom_scale)
qed

text \<open>
  The theorem at the state of the first counterexample: a zoom at the pointer, a zoom to a
  target box 50 x 25, a drag move, a wheel event with the control key held, a reset and
  the resize from 100 x 100 to 200 x 200.
\<close>

theorem committed_scale_by_controller_witness:
  "inZoomRange (sample_options True)
       (scale_of (handleZoom (sample_options True) (dims 200 200) (origin_bounds 100 100)
          (point 100 100) (Num 1) (Num 10) (sample_state 5 (point 0 0) 0 (dims 100 100))))
   \<and> inZoomRange (sample_options True)
       (scale_of (zoomToElement (sample_options True) (dims 200 200) (origin_bounds 100 100)
          (origin_bounds 50 25) (sample_state 5 (point 0 0) 0 (dims 100 100))))
   \<and> scale_of (handleDragMove (sample_options True) (dims 200 200) (origin_bounds 100 100)
          (Mounted (Some (point 100 100))) (sample_state 5 (point 0 0) 0 (dims 100 100)))
       = scale_of (sample_state 5 (point 0 0) 0 (dims 100 100))
   \<and> inZoomRange (sample_options True)
       (scale_of (onWheel
          (handleZoom (sample_options True) (dims 200 200) (origin_bounds 100 100))
          (sample_options True) (dims 200 200) (origin_bounds 100 100)
          False (Mounted (Some (point 100 100))) (sample_wheel 0 10 True 1000)
          (sample_state 5 (point 0 0) 0 (dims 100 100))))
   \<and> scale_of (resetZoom (sample_options True) (dims 200 200) (origin_bounds 100 100)
          (sample_state 5 (point 0 0) 0 (dims 100 100)))
       = scale_x (calculateScale (origin_bounds 100 100) (dims 200 200))
   \<and> scale_of (useStageResize (sample_options True) (origin_bounds 100 100) (dims 200 200)
          (sample_state 5 (point 0 0) 0 (dims 100 100)))
         / scale_x (calculateScale (origin_bounds 100 100) (dims 200 200))
       = scale_of (sample_state 5 (point 0 0) 0 (dims 100 100))
         / scale_x (calculateScale (origin_bounds 100 100)
             (previousContainer (sample_state 5 (point 0 0) 0 (dims 100 100))))"
  by (rule committed_scale_by_controller) (simp_all add: inZoomRange_def)

section \<open>The resize adapter\<close>

lemma resizePosition_Num:
  assumes "width (previousContainer st) = Num pw" "height (previousContainer st) = Num ph"
    and "width container = Num cw" "height container = Num ch"
    and "scale_of st = Num s" "s \<noteq> 0"
    and "point_x (position_of st) = Num px" "point_y (position_of st) = Num py"
    and "resizeScale bounds container st = Num ns"
  shows "resizePosition bounds container st
           = \<lparr>point_x = Num (- ((- px + pw / 2) / s) * ns + cw / 2),
              point_y = Num (- ((- py + ph / 2) / s) * ns + ch / 2)\<rparr>"
  using assms by (simp add: resizePosition_def worldCentre_def Let_def)

lemma updateTransform_position:
  assumes "\<not> clampPositionOption options
           \<or> clampPosition (resizePosition bounds container st) (resizeScale bounds container st)
                container bounds = resizePosition bounds container st"
  shows "position_of (updateTransform options bounds container st)
           = resizePosition bounds container st"
  using assms
  by (auto simp add: updateTransform_def setPosition_def clampAndSetPosition_def Let_def)

text \<open>
  C3, counterexample. With position clamping enabled, bounds 100 x 100 at the origin, a
  scale of 2 and the position (100, 0) in a container 200 x 100 (a position the clamp
  leaves alone there), the centre of the container shows the world point (0, 25). A
  resize to 100 x 100 computes the scale 2 and the position (50, 0), which the clamp of
  \<open>setPosition\<close> moves to (0, 0): the centre of the new container shows (25, 25).
\<close>

theorem resize_moves_centre_when_clamped:
  "clampPosition (point 100 0) (Num 2) (dims 200 100) (origin_bounds 100 100) = point 100 0
   \<and> useStageResize (sample_options True) (origin_bounds 100 100) (dims 100 100)
       (sample_state 2 (point 100 0) 0 (dims 200 100))
     = sample_state 2 (point 0 0) 0 (dims 100 100)
   \<and> worldCentre (point 0 0) (dims 100 100) (Num 2)
     \<noteq> worldCentre (point 100 0) (dims 200 100) (Num 2)"
  by (simp add: useStageResize_def updateTransform_def resizeScale_def resizePosition_def
      worldCentre_def calculateScale_def setPosition_def clampAndSetPosition_def
      clampPosition_def clampLimits_def calculateInitialPosition_def calculateVisibleRect_def
      Let_def)

text \<open>
  C3, as amended. For bounds, previous container and new container with positive (finite)
  dimensions, a positive finite scale and a finite position, provided position clamping is
  disabled or leaves the position the adapter computes where it is: after the resize
  adapter has run, the world point at the centre of the new container is the world point
  that was at the centre of the previous container (within floating tolerance; an identity
  in exact arithmetic).
\<close>

theorem resize_keeps_centre:
  assumes "isFinite (width bounds)" "Num 0 < width bounds"
    and "isFinite (height bounds)" "Num 0 < height bounds"
    and "isFinite (width (previousContainer st))" "Num 0 < width (previousContainer st)"
    and "isFinite (height (previousContainer st))" "Num 0 < height (previousContainer st)"
    and "isFinite (width container)" "Num 0 < width container"
    and "isFinite (height container)" "Num 0 < height container"
    and "isFinite (scale_of st)" "Num 0 < scale_of st"
    and "isFinite (point_x (position_of st))" "isFinite (point_y (position_of st))"
    and "\<not> clampPositionOption options
           \<or> clampPosition (resizePosition bounds container st) (resizeScale bounds container st)
                container bounds = resizePosition bounds container st"
  shows "worldCentre (position_of (useStageResize options bounds container st)) container
             (scale_of (useStageResize options bounds container st))
           = worldCentre (position_of st) (previousContainer st) (scale_of st)"
proof -
  obtain bw where bw: "width bounds = Num bw" "0 < bw"
    using assms(1,2) by (rule positive_finite)
  obtain bh where bh: "height bounds = Num bh" "0 < bh"
    using assms(3,4) by (rule positive_finite)
  obtain pw where pw: "width (previousContainer st) = Num pw" "0 < pw"
    using assms(5,6) by (rule positive_finite)
  obtain ph where ph: "height (previousContainer st) = Num ph" "0 < ph"
    using assms(7,8) by (rule positive_finite)
  obtain cw where cw: "width container = Num cw" "0 < cw"
    using assms(9,10) by (rule positive_finite)
  obtain ch where ch: "height container = Num ch" "0 < ch"
    using assms(11,12) by (rule positive_finite)
  obtain s where s: "scale_of st = Num s" "0 < s"
    using assms(13,14) by (rule positive_finite)
  obtain px where px: "point_x (position_of st) = Num px"
    using assms(15) by (rule finite_Num)
  obtain py where py: "point_y (position_of st) = Num py"
    using assms(16) by (rule finite_Num)
  show ?thesis
  proof (cases "strictEq (width container) (width (previousContainer st))
                \<and> strictEq (height container) (height (previousContainer st))")
    case True
    then have "cw = pw" "ch = ph"
      using cw pw ch ph by simp_all
    then show ?thesis
      using True cw pw ch ph by (simp add: useStageResize_def worldCentre_def)
  next
    case False
    define ns where "ns = min (cw / bw) (ch / bh) * (s / min (pw / bw) (ph / bh))"
    have "0 < min (cw / bw) (ch / bh)" "0 < min (pw / bw) (ph / bh)"
      using bw bh pw ph cw ch by (simp_all add: fit_positive)
    then have "0 < ns"
      unfolding ns_def using s(2) by (intro mult_pos_pos divide_pos_pos)
    then have ns: "ns \<noteq> 0"
      by simp
    have s0: "s \<noteq> 0"
      using s(2) by simp
    have newScale: "resizeScale bounds container st = Num ns"
      unfolding ns_def
      using bw(1) bh(1) pw(1) ph(1) cw(1) ch(1) bw(2) bh(2) pw(2) ph(2) cw(2) ch(2) s(1)
      by (rule resizeScale_Num)
    have newPosition: "resizePosition bounds container st
           = \<lparr>point_x = Num (- ((- px + pw / 2) / s) * ns + cw / 2),
              point_y = Num (- ((- py + ph / 2) / s) * ns + ch / 2)\<rparr>"
      using pw(1) ph(1) cw(1) ch(1) s(1) s0 px py newScale by (rule resizePosition_Num)
    have after: "useStageResize options bounds container st
                   = updateTransform options bounds container st"
      using False by (auto simp add: useStageResize_def)
    have "worldCentre (resizePosition bounds container st) container (Num ns)
            = worldCentre (position_of st) (previousContainer st) (scale_of st)"
      using ns s0 by (simp add: newPosition worldCentre_def cw(1) ch(1) pw(1) ph(1) s(1) px py)
    then show ?thesis
      by (simp add: after updateTransform_scale updateTransform_position[OF assms(17)] newScale)
  qed
qed

text \<open>The resize of the counterexample with position clamping disabled.\<close>

theorem resize_keeps_centre_witness:
  "worldCentre
      (position_of (useStageResize (sample_options False) (origin_bounds 100 100) (dims 100 100)
         (sample_state 2 (point 100 0) 0 (dims 200 100))))
      (dims 100 100)
      (scale_of (useStageResize (sample_options False) (origin_bounds 100 100) (dims 100 100)
         (sample_state 2 (point 100 0) 0 (dims 200 100))))
    = worldCentre (position_of (sample_state 2 (point 100 0) 0 (dims 200 100)))
        (previousContainer (sample_state 2 (point 100 0) 0 (dims 200 100)))
        (scale_of (sample_state 2 (point 100 0) 0 (dims 200 100)))"
  by (rule resize_keeps_centre) simp_all

section \<open>The zoom controller\<close>

lemma handleZoom_position:
  assumes "\<not> clampPositionOption options
           \<or> clampPosition (zoomPosition options pointer direction delta st)
                (zoomScale options direction delta st) container bounds
              = zoomPosition options pointer direction delta st"
  shows "position_of (handleZoom options container bounds pointer direction delta st)
           = zoomPosition options pointer direction delta st"
  using assms
  by (auto simp add: handleZoom_def setPosition_def clampAndSetPosition_def Let_def)

text \<open>
  C4, counterexample. With position clamping enabled, bounds 100 x 100 in a container
  100 x 100 (fit scale 1), at scale 2 and position (0, 0) (a position the clamp leaves
  alone) the pointer (100, 100) is over the world point (50, 50). \<open>handleZoom\<close> with direction -1, delta 2.5 and
  \<open>zoomSpeed = 5\<close> has factor 0.5 and new scale 1; the position it computes, (50, 50),
  is clamped by \<open>setPosition\<close> to (0, 0), and the pointer is then over (100, 100).
\<close>

theorem zoom_moves_anchor_when_clamped:
  "clampPosition (point 0 0) (Num 2) (dims 100 100) (origin_bounds 100 100) = point 0 0
   \<and> handleZoom (sample_options True) (dims 100 100) (origin_bounds 100 100)
       (point 100 100) (Num (- 1)) (Num (5 / 2)) (sample_state 2 (point 0 0) 0 (dims 100 100))
     = sample_state 1 (point 0 0) 0 (dims 100 100)
   \<and> worldAnchor (point 100 100) (point 0 0) (Num 1)
     \<noteq> worldAnchor (point 100 100) (point 0 0) (Num 2)"
  by (simp add: handleZoom_def zoomScale_def zoomPosition_def clampNumber_def worldAnchor_def
      calculateScale_def setPosition_def clampAndSetPosition_def
      clampPosition_def clampLimits_def calculateInitialPosition_def calculateVisibleRect_def
      Let_def)

text \<open>
  C4, as amended. For a finite pointer position, a positive finite scale, a finite
  position, finite direction and delta, a finite non-zero \<open>zoomSpeed\<close>, a positive finite
  \<open>minZoom\<close> and a finite \<open>maxZoom\<close>, provided position clamping is disabled or leaves
  the position \<open>handleZoom\<close> computes where it is: after \<open>handleZoom\<close> has committed
  the new scale and position, the world point under the pointer is the one that was under
  it before (within floating tolerance; an identity in exact arithmetic).
\<close>

theorem zoom_keeps_anchor:
  assumes "isFinite (scale_of st)" "Num 0 < scale_of st"
    and "isFinite (point_x (position_of st))" "isFinite (point_y (position_of st))"
    and "isFinite (point_x pointer)" "isFinite (point_y pointer)"
    and "isFinite direction" "isFinite delta"
    and "isFinite (zoomSpeed options)" "zoomSpeed options \<noteq> Num 0"
    and "isFinite (minZoom options)" "Num 0 < minZoom options"
    and "isFinite (maxZoom options)"
    and "\<not> clampPositionOption options
           \<or> clampPosition (zoomPosition options pointer direction delta st)
                (zoomScale options direction delta st) container bounds
              = zoomPosition options pointer direction delta st"
  shows "worldAnchor pointer
             (position_of (handleZoom options container bounds pointer direction delta st))
             (scale_of (handleZoom options container bounds pointer direction delta st))
           = worldAnchor pointer (position_of st) (scale_of st)"
proof -
  obtain s where s: "scale_of st = Num s" "0 < s"
    using assms(1,2) by (rule positive_finite)
  obtain px where px: "point_x (position_of st) = Num px"
    using assms(3) by (rule finite_Num)
  obtain py where py: "point_y (position_of st) = Num py"
    using assms(4) by (rule finite_Num)
  obtain qx where qx: "point_x pointer = Num qx"
    using assms(5) by (rule finite_Num)
  obtain qy where qy: "point_y pointer = Num qy"
    using assms(6) by (rule finite_Num)
  obtain d where d: "direction = Num d"
    using assms(7) by (rule finite_Num)
  obtain e where e: "delta = Num e"
    using assms(8) by (rule finite_Num)
  obtain z where z: "zoomSpeed options = Num z"
    using assms(9) by (rule finite_Num)
  obtain lo where lo: "minZoom options = Num lo" "0 < lo"
    using assms(11,12) by (rule positive_finite)
  obtain hi where hi: "maxZoom options = Num hi"
    using assms(13) by (rule finite_Num)
  have z0: "z \<noteq> 0"
    using assms(10) z by simp
  define ns where "ns = max lo (min hi (s * (1 + d * (e / z))))"
  have newScale: "zoomScale options direction delta st = Num ns"
    unfolding ns_def using s(1) d e z z0 lo(1) hi by (rule zoomScale_Num)
  have "lo \<le> ns"
    by (simp add: ns_def)
  then have ns: "ns \<noteq> 0"
    using lo(2) by simp
  have s0: "s \<noteq> 0"
    using s(2) by simp
  have newPosition: "zoomPosition options pointer direction delta st
      = \<lparr>point_x = Num (qx - (qx - px) / s * ns), point_y = Num (qy - (qy - py) / s * ns)\<rparr>"
    using s0 by (simp add: zoomPosition_def worldAnchor_def newScale Let_def s(1) px py qx qy)
  have "worldAnchor pointer (zoomPosition options pointer direction delta st) (Num ns)
          = worldAnchor pointer (position_of st) (scale_of st)"
    using ns s0 by (simp add: newPosition worldAnchor_def s(1) px py qx qy)
  then show ?thesis
    by (simp add: handleZoom_scale handleZoom_position[OF assms(14)] newScale)
qed

text \<open>
  A zoom at the pointer (100, 100) from scale 1 and position (0, 0) with direction 1,
  delta 10 and \<open>zoomSpeed = 5\<close> (factor 3), position clamping disabled.
\<close>

theorem zoom_keeps_anchor_witness:
  "worldAnchor (point 100 100)
      (position_of (handleZoom (sample_options False) (dims 100 100) (origin_bounds 100 100)
         (point 100 100) (Num 1) (Num 10) (sample_state 1 (point 0 0) 0 (dims 100 100))))
      (scale_of (handleZoom (sample_options False) (dims 100 100) (origin_bounds 100 100)
         (point 100 100) (Num 1) (Num 10) (sample_state 1 (point 0 0) 0 (dims 100 100))))
    = worldAnchor (point 100 100) (position_of (sample_state 1 (point 0 0) 0 (dims 100 100)))
        (scale_of (sample_state 1 (point 0 0) 0 (dims 100 100)))"
  by (rule zoom_keeps_anchor) simp_all

section \<open>The wheel router\<close>

lemma wheelAction_suppressed:
  assumes "\<not> ctrlKey ev" "\<not> metaKey ev" "\<not> isIntentional ev"
    and "now ev - lastZoomTime st \<le> zoomPanTransitionDelay options"
  shows "wheelAction options loading stage ev st =
           (case stage of Mounted (Some pointer) \<Rightarrow> if loading then NotHandled else Discard
            | _ \<Rightarrow> NotHandled)"
  using assms by (simp add: wheelAction_def Let_def split: StageRef.split option.split)

lemma wheelAction_suppressed_cases:
  assumes "\<not> ctrlKey ev" "\<not> metaKey ev" "\<not> isIntentional ev"
    and "now ev - lastZoomTime st \<le> zoomPanTransitionDelay options"
  shows "wheelAction options loading stage ev st = Discard
       \<or> wheelAction options loading stage ev st = NotHandled"
  by (simp add: wheelAction_suppressed[OF assms] split: StageRef.split option.split)

lemma onWheel_suppressed:
  assumes "\<not> ctrlKey ev" "\<not> metaKey ev" "\<not> isIntentional ev"
    and "now ev - lastZoomTime st \<le> zoomPanTransitionDelay options"
  shows "onWheel zoom options container bounds loading stage ev st = st"
  using wheelAction_suppressed_cases[OF assms, of loading stage]
  by (auto simp add: onWheel_def)

text \<open>
  C8. A wheel event without a zoom modifier (neither \<open>ctrlKey\<close> nor \<open>metaKey\<close>) that
  the classifier does not mark as intentional and that arrives within
  \<open>zoomPanTransitionDelay\<close> of the recorded last zoom time is discarded by a handler
  that gets as far as the event; whatever the \<open>loading\<close> flag and the stage, the handler
  neither pans nor zooms (no call to the position setter), and it leaves the state, and so
  the position, unchanged.
\<close>

theorem wheel_pan_discarded_in_window:
  assumes "\<not> ctrlKey ev" "\<not> metaKey ev" "\<not> isIntentional ev"
    and "now ev - lastZoomTime st \<le> zoomPanTransitionDelay options"
  shows "wheelAction options False (Mounted (Some pointer)) ev st = Discard
       \<and> (wheelAction options loading stage ev st = Discard
            \<or> wheelAction options loading stage ev st = NotHandled)
       \<and> onWheel zoom options container bounds loading stage ev st = st
       \<and> position_of (onWheel zoom options container bounds loading stage ev st)
           = position_of st"
  using wheelAction_suppressed_cases[OF assms, of loading stage]
  by (simp add: wheelAction_suppressed[OF assms] onWheel_suppressed[OF assms])

text \<open>
  The scenario of the specification: a wheel event with \<open>ctrlKey = false\<close> and
  \<open>dy = 5\<close>, not intentional, 50 ms after a zoom at time 1000, with
  \<open>zoomPanTransitionDelay = 100\<close>.
\<close>

theorem wheel_pan_discarded_in_window_witness:
  "wheelAction (sample_options True) False (Mounted (Some (point 100 100)))
       (sample_wheel 0 5 False 1050) (sample_state 2 (point 0 0) 1000 (dims 100 100))
     = Discard
   \<and> (wheelAction (sample_options True) False (Mounted (Some (point 100 100)))
           (sample_wheel 0 5 False 1050) (sample_state 2 (point 0 0) 1000 (dims 100 100))
         = Discard
       \<or> wheelAction (sample_options True) False (Mounted (Some (point 100 100)))
           (sample_wheel 0 5 False 1050) (sample_state 2 (point 0 0) 1000 (dims 100 100))
         = NotHandled)
   \<and> onWheel (handleZoom (sample_options True) (dims 100 100) (origin_bounds 100 100))
       (sample_options True) (dims 100 100) (origin_bounds 100 100)
       False (Mounted (Some (point 100 100))) (sample_wheel 0 5 False 1050)
       (sample_state 2 (point 0 0) 1000 (dims 100 100))
     = sample_state 2 (point 0 0) 1000 (dims 100 100)
   \<and> position_of
       (onWheel (handleZoom (sample_options True) (dims 100 100) (origin_bounds 100 100))
         (sample_options True) (dims 100 100) (origin_bounds 100 100)
         False (Mounted (Some (point 100 100))) (sample_wheel 0 5 False 1050)
         (sample_state 2 (point 0 0) 1000 (dims 100 100)))
     = position_of (sample_state 2 (point 0 0) 1000 (dims 100 100))"
  by (rule wheel_pan_discarded_in_window) simp_all

lemma handleKeyUp_modifier:
  assumes "key = ''Meta'' \<or> key = ''Control''"
  shows "handleKeyUp key t st = st\<lparr>lastZoomTime := t\<rparr>"
  using assms by (auto simp add: handleKeyUp_def)

lemma onWheelEvents_suppressed:
  assumes "list_all (\<lambda>(loading, stage, ev). \<not> ctrlKey ev \<and> \<not> metaKey ev \<and> \<not> isIntentional ev
              \<and> now ev - lastZoomTime st \<le> zoomPanTransitionDelay options) events"
  shows "onWheelEvents zoom options container bounds events st = st"
  using assms
proof (induction events)
  case Nil
  then show ?case by (simp add: onWheelEvents_def)
next
  case (Cons e events)
  obtain loading stage ev where e: "e = (loading, stage, ev)"
    by (cases e)
  have "onWheel zoom options container bounds loading stage ev st = st"
    using Cons.prems e by (intro onWheel_suppressed) simp_all
  then show ?case
    using Cons e by (simp add: onWheelEvents_def)
qed

lemma wheelActions_suppressed:
  assumes "list_all (\<lambda>(loading, stage, ev). \<not> ctrlKey ev \<and> \<not> metaKey ev \<and> \<not> isIntentional ev
              \<and> now ev - lastZoomTime st \<le> zoomPanTransitionDelay options) events"
  shows "list_all (\<lambda>(loading, stage, ev).
             wheelAction options loading stage ev st = Discard
             \<or> wheelAction options loading stage ev st = NotHandled) events"
  using assms
proof (induction events)
  case Nil
  then show ?case by simp
next
  case (Cons e events)
  obtain loading stage ev where e: "e = (loading, stage, ev)"
    by (cases e)
  have "wheelAction options loading stage ev st = Discard
      \<or> wheelAction options loading stage ev st = NotHandled"
    using Cons.prems e by (intro wheelAction_suppressed_cases) simp_all
  then show ?case
    using Cons e by simp
qed

text \<open>
  C9. Releasing the Meta or the Control key sets the last-zoom time of the wheel handler
  to the time of the key-up, whatever the state was and whether or not a zoom was ever
  performed. Every wheel event that then arrives within \<open>zoomPanTransitionDelay\<close> of
  the key-up, without a zoom modifier and not classified as intentional (the classifier
  is only asked about events without a modifier), is discarded or not handled: the state
  after any sequence of such events is the state right after the key-up, and the position
  is the one before it.
\<close>

theorem keyup_opens_suppression_window:
  assumes "key = ''Meta'' \<or> key = ''Control''"
    and "list_all (\<lambda>(loading, stage, ev). \<not> ctrlKey ev \<and> \<not> metaKey ev \<and> \<not> isIntentional ev
              \<and> now ev - t \<le> zoomPanTransitionDelay options) events"
  shows "lastZoomTime (handleKeyUp key t st) = t
       \<and> list_all (\<lambda>(loading, stage, ev).
             wheelAction options loading stage ev (handleKeyUp key t st) = Discard
             \<or> wheelAction options loading stage ev (handleKeyUp key t st) = NotHandled) events
       \<and> onWheelEvents zoom options container bounds events (handleKeyUp key t st)
           = handleKeyUp key t st
       \<and> position_of (onWheelEvents zoom options container bounds events (handleKeyUp key t st))
           = position_of st"
proof -
  have up: "handleKeyUp key t st = st\<lparr>lastZoomTime := t\<rparr>"
    using assms(1) by (rule handleKeyUp_modifier)
  have window: "list_all (\<lambda>(loading, stage, ev). \<not> ctrlKey ev \<and> \<not> metaKey ev \<and> \<not> isIntentional ev
              \<and> now ev - lastZoomTime (st\<lparr>lastZoomTime := t\<rparr>) \<le> zoomPanTransitionDelay options)
            events"
    using assms(2) by simp
  have run: "onWheelEvents zoom options container bounds events (st\<lparr>lastZoomTime := t\<rparr>)
               = st\<lparr>lastZoomTime := t\<rparr>"
    using window by (rule onWheelEvents_suppressed)
  have each: "list_all (\<lambda>(loading, stage, ev).
             wheelAction options loading stage ev (st\<lparr>lastZoomTime := t\<rparr>) = Discard
             \<or> wheelAction options loading stage ev (st\<lparr>lastZoomTime := t\<rparr>) = NotHandled) events"
    using window by (rule wheelActions_suppressed)
  show ?thesis
    using run each by (simp add: up)
qed

text \<open>
  A key-up of Meta at time 1000 in a state whose last zoom time is 0, followed by two
  wheel events at times 1010 and 1100, with \<open>zoomPanTransitionDelay = 100\<close>.
\<close>

theorem keyup_opens_suppression_window_witness:
  "lastZoomTime (handleKeyUp ''Meta'' (Num 1000) (sample_state 1 (point 0 0) 0 (dims 100 100)))
     = Num 1000
   \<and> list_all (\<lambda>(loading, stage, ev).
         wheelAction (sample_options True) loading stage ev
           (handleKeyUp ''Meta'' (Num 1000) (sample_state 1 (point 0 0) 0 (dims 100 100)))
           = Discard
         \<or> wheelAction (sample_options True) loading stage ev
           (handleKeyUp ''Meta'' (Num 1000) (sample_state 1 (point 0 0) 0 (dims 100 100)))
           = NotHandled)
       [(False, Mounted (Some (point 10 10)), sample_wheel 0 5 False 1010),
        (False, Mounted (Some (point 10 10)), sample_wheel 3 4 False 1100)]
   \<and> onWheelEvents (handleZoom (sample_options True) (dims 100 100) (origin_bounds 100 100))
       (sample_options True) (dims 100 100) (origin_bounds 100 100)
       [(False, Mounted (Some (point 10 10)), sample_wheel 0 5 False 1010),
        (False, Mounted (Some (point 10 10)), sample_wheel 3 4 False 1100)]
       (handleKeyUp ''Meta'' (Num 1000) (sample_state 1 (point 0 0) 0 (dims 100 100)))
     = handleKeyUp ''Meta'' (Num 1000) (sample_state 1 (point 0 0) 0 (dims 100 100))
   \<and> position_of
       (onWheelEvents (handleZoom (sample_options True) (dims 100 100) (origin_bounds 100 100))
         (sample_options True) (dims 100 100) (origin_bounds 100 100)
         [(False, Mounted (Some (point 10 10)), sample_wheel 0 5 False 1010),
          (False, Mounted (Some (point 10 10)), sample_wheel 3 4 False 1100)]
         (handleKeyUp ''Meta'' (Num 1000) (sample_state 1 (point 0 0) 0 (dims 100 100))))
     = position_of (sample_state 1 (point 0 0) 0 (dims 100 100))"
  by (rule keyup_opens_suppression_window) simp_all

end
